theory Spec2Isabelle
  imports
    Complex_Main
    "HOL-Library.Char_ord"
    "HOL-Library.List_Lexorder"
    "HOL-Library.Product_Lexorder"
    "HOL-Library.Monad_Syntax"
begin

section \<open>The table of laptop listings\<close>

text \<open>
  The dashboard of \<^verbatim>\<open>app.py\<close> works on one pandas DataFrame. The CSV file supplies
  seven columns; \<^verbatim>\<open>load_data\<close> appends \<^verbatim>\<open>Platform\<close>, \<^verbatim>\<open>City\<close> and
  \<^verbatim>\<open>Rating\<close>. A row is a record with the columns' names, a frame is the list of its
  rows in order, each paired with its index label (the row identity that boolean indexing
  keeps). Float columns are modelled by exact rationals: comparison of finite floats is the
  order of the rationals they denote; the rounding of float sums is not modelled, and, as
  the data model assumes, no cell is missing.
\<close>

record raw_listing =
  Brand :: string
  Price :: rat
  RAM_Size :: int
  Storage_Capacity :: int
  Processor_Speed :: rat
  Screen_Size :: rat
  Weight :: rat

record listing = raw_listing +
  Platform :: string
  City :: string
  Rating :: rat

type_synonym frame = "(nat \<times> listing) list"

section \<open>The filter\<close>

text \<open>
  \<^verbatim>\<open>filtered_df[m]\<close> with a boolean column \<^verbatim>\<open>m\<close> computed row by row: the rows
  whose entry is true, in their order, with their index labels.
\<close>

definition select_rows :: "(listing \<Rightarrow> bool) \<Rightarrow> frame \<Rightarrow> frame" where
  "select_rows keep df = filter (\<lambda>ir. keep (snd ir)) df"

text \<open>
  \<^verbatim>\<open>filter_data\<close>, statement by statement. \<^verbatim>\<open>if brands:\<close> tests the truthiness of a
  Python list, which is its being non-empty; \<^verbatim>\<open>price_range\<close> is the pair returned by
  the slider.
\<close>

definition filter_data ::
  "frame \<Rightarrow> string \<Rightarrow> string list \<Rightarrow> rat \<times> rat \<Rightarrow> string list \<Rightarrow> int list \<Rightarrow> int list
     \<Rightarrow> frame" where
  "filter_data df city brands price_range platforms ram_sizes storage_sizes =
    (let filtered_df = df;
         filtered_df = (if city \<noteq> ''All''
                        then select_rows (\<lambda>r. City r = city) filtered_df
                        else filtered_df);
         filtered_df = (if brands \<noteq> []
                        then select_rows (\<lambda>r. Brand r \<in> set brands) filtered_df
                        else filtered_df);
         filtered_df = select_rows
                         (\<lambda>r. Price r \<ge> fst price_range \<and> Price r \<le> snd price_range)
                         filtered_df;
         filtered_df = (if platforms \<noteq> []
                        then select_rows (\<lambda>r. Platform r \<in> set platforms) filtered_df
                        else filtered_df);
         filtered_df = (if ram_sizes \<noteq> []
                        then select_rows (\<lambda>r. RAM_Size r \<in> set ram_sizes) filtered_df
                        else filtered_df);
         filtered_df = (if storage_sizes \<noteq> []
                        then select_rows (\<lambda>r. Storage_Capacity r \<in> set storage_sizes)
                               filtered_df
                        else filtered_df)
     in filtered_df)"

text \<open>
  The specification's reading of the filter, in its own words: one predicate on a row, the
  conjunction of the active predicates. The city predicate is inactive for the sentinel
  \<^verbatim>\<open>All\<close>, a membership predicate is inactive for an empty selection.
\<close>

definition city_ok :: "string \<Rightarrow> listing \<Rightarrow> bool" where
  "city_ok city r = (city = ''All'' \<or> City r = city)"

definition member_ok :: "'a list \<Rightarrow> 'a \<Rightarrow> bool" where
  "member_ok selected v = (selected = [] \<or> v \<in> set selected)"

definition price_ok :: "rat \<times> rat \<Rightarrow> listing \<Rightarrow> bool" where
  "price_ok price_range r = (fst price_range \<le> Price r \<and> Price r \<le> snd price_range)"

definition satisfies_spec ::
  "string \<Rightarrow> string list \<Rightarrow> rat \<times> rat \<Rightarrow> string list \<Rightarrow> int list \<Rightarrow> int list \<Rightarrow> listing
     \<Rightarrow> bool" where
  "satisfies_spec city brands price_range platforms ram_sizes storage_sizes r =
     (city_ok city r \<and> member_ok brands (Brand r) \<and> price_ok price_range r \<and>
      member_ok platforms (Platform r) \<and> member_ok ram_sizes (RAM_Size r) \<and>
      member_ok storage_sizes (Storage_Capacity r))"

text \<open>A table for the examples: five listings of the brands X and Y.\<close>

definition laptop :: "string \<Rightarrow> rat \<Rightarrow> string \<Rightarrow> listing" where
  "laptop b p pl =
     \<lparr>Brand = b, Price = p, RAM_Size = 8, Storage_Capacity = 512, Processor_Speed = 2,
      Screen_Size = 15, Weight = 2, Platform = pl, City = ''Bhopal'', Rating = 4\<rparr>"

definition five_rows :: frame where
  "five_rows =
     [(0, laptop ''X'' 10000 ''Amazon''), (1, laptop ''Y'' 20000 ''Croma''),
      (2, laptop ''X'' 15000 ''Amazon''), (3, laptop ''Y'' 30000 ''Flipkart''),
      (4, laptop ''X'' 25000 ''Croma'')]"

section \<open>Columns and means\<close>

text \<open>
  \<^verbatim>\<open>df[c]\<close>, the column \<^verbatim>\<open>c\<close> as the list of its cells, and \<^verbatim>\<open>Series.mean()\<close>,
  which is NaN (here \<open>None\<close>) on an empty column and the sum over the count otherwise.
\<close>

definition column :: "(listing \<Rightarrow> 'a) \<Rightarrow> frame \<Rightarrow> 'a list" where
  "column c df = map (\<lambda>ir. c (snd ir)) df"

definition mean :: "rat list \<Rightarrow> rat option" where
  "mean xs = (if xs = [] then None else Some (sum_list xs / of_nat (length xs)))"

section \<open>Aggregations\<close>

text \<open>
  \<^verbatim>\<open>df.groupby(key)['Price']\<close>: the groups are the distinct values of the key column,
  listed in ascending order of the key (\<^verbatim>\<open>groupby\<close> sorts the group keys by default),
  each with the prices of its rows in table order. Strings are compared as Python compares
  them, character by character.
\<close>

definition prices_of :: "(listing \<Rightarrow> 'k) \<Rightarrow> 'k \<Rightarrow> frame \<Rightarrow> rat list" where
  "prices_of key k df = column Price (select_rows (\<lambda>r. key r = k) df)"

definition groupby_price :: "(listing \<Rightarrow> 'k::linorder) \<Rightarrow> frame \<Rightarrow> ('k \<times> rat list) list" where
  "groupby_price key df = map (\<lambda>k. (k, prices_of key k df)) (sort (remdups (column key df)))"

text \<open>
  \<^verbatim>\<open>.mean()\<close> and \<^verbatim>\<open>.agg(['mean', 'count'])\<close> on the grouped prices: one entry per group,
  in the order of the groups.
\<close>

definition agg_mean :: "('k \<times> rat list) list \<Rightarrow> ('k \<times> rat option) list" where
  "agg_mean groups = map (\<lambda>g. (fst g, mean (snd g))) groups"

definition agg_mean_count :: "('k \<times> rat list) list \<Rightarrow> ('k \<times> rat option \<times> nat) list" where
  "agg_mean_count groups = map (\<lambda>g. (fst g, mean (snd g), length (snd g))) groups"

text \<open>
  \<^verbatim>\<open>Series.sort_values()\<close> sorts with numpy's default \<^verbatim>\<open>kind='quicksort'\<close>, which is not
  stable: the result is ascending by value, but which of two entries of equal value comes
  first is numpy's choice. That choice is the parameter \<open>tie\<close>: given the values of the
  series, it assigns to each position a priority, and among entries of equal value the one
  of lower priority comes first (entries equal in both keep their order). Every order of
  the ties is the result for some \<open>tie\<close>, and every \<open>tie\<close> gives a sorted rearrangement of
  the series. \<open>sort_by_rank\<close> sorts entries by a rank computed from the entry and its
  position.
\<close>

definition sort_by_rank :: "('a \<times> nat \<Rightarrow> 'r::linorder) \<Rightarrow> 'a list \<Rightarrow> 'a list" where
  "sort_by_rank rank xs = map fst (sort_key rank (zip xs [0..<length xs]))"

text \<open>
  The rank of an entry of a series of means: NaN entries (\<open>None\<close>) come last, in their
  order; the others by value, then by the priority of their position.
\<close>

fun sort_rank :: "(nat \<Rightarrow> nat) \<Rightarrow> ('k \<times> rat option) \<times> nat \<Rightarrow> bool \<times> rat \<times> nat" where
  "sort_rank prio ((k, None), i) = (True, 0, 0)"
| "sort_rank prio ((k, Some v), i) = (False, v, prio i)"

definition sort_values ::
  "(rat option list \<Rightarrow> nat \<Rightarrow> nat) \<Rightarrow> ('k \<times> rat option) list \<Rightarrow> ('k \<times> rat option) list" where
  "sort_values tie s = sort_by_rank (sort_rank (tie (map snd s))) s"

text \<open>\<^verbatim>\<open>.head(n)\<close> keeps the first \<open>n\<close> entries.\<close>

definition head :: "nat \<Rightarrow> 'a list \<Rightarrow> 'a list" where
  "head n s = take n s"

text \<open>
  \<^verbatim>\<open>get_cheapest_platforms\<close>, and the table \<^verbatim>\<open>platform_stats\<close> that
  \<^verbatim>\<open>create_platform_comparison_chart\<close> computes before it draws.
\<close>

definition get_cheapest_platforms ::
  "(rat option list \<Rightarrow> nat \<Rightarrow> nat) \<Rightarrow> frame \<Rightarrow> (string \<times> rat option) list" where
  "get_cheapest_platforms tie df =
     (let platform_avg_price = sort_values tie (agg_mean (groupby_price Platform df))
      in head 2 platform_avg_price)"

definition platform_stats :: "frame \<Rightarrow> (string \<times> rat option \<times> nat) list" where
  "platform_stats df = agg_mean_count (groupby_price Platform df)"

text \<open>
  \<^verbatim>\<open>df['Platform'].value_counts()\<close> of \<^verbatim>\<open>create_platform_market_share\<close>: the distinct
  values in order of first appearance with their counts, then \<^verbatim>\<open>sort_values\<close> by
  descending count, the order among equal counts again numpy's choice.
\<close>

definition value_counts :: "(nat list \<Rightarrow> nat \<Rightarrow> nat) \<Rightarrow> 'k list \<Rightarrow> ('k \<times> nat) list" where
  "value_counts tie s =
     (let counts = map (\<lambda>k. (k, count_list s k)) (rev (remdups (rev s)))
      in sort_by_rank (\<lambda>e. (- int (snd (fst e)), tie (map snd counts) (snd e))) counts)"

definition platform_counts :: "(nat list \<Rightarrow> nat \<Rightarrow> nat) \<Rightarrow> frame \<Rightarrow> (string \<times> nat) list" where
  "platform_counts tie df = value_counts tie (column Platform df)"

text \<open>
  The specification's \<^verbatim>\<open>cheapestGroups(table, groupKeyColumn, n)\<close>, in its words: the
  pairs of group and mean price ascending by mean price, ties in the order in which the
  groups first appear in the table (a stable sort of the groups in that order), cut to
  \<open>n\<close> entries.
\<close>

fun nan_last :: "rat option \<Rightarrow> bool \<times> rat" where
  "nan_last None = (True, 0)"
| "nan_last (Some v) = (False, v)"

definition cheapestGroups_spec ::
  "frame \<Rightarrow> (listing \<Rightarrow> 'k) \<Rightarrow> nat \<Rightarrow> ('k \<times> rat option) list" where
  "cheapestGroups_spec df key n =
     take n (sort_key (\<lambda>kv. nan_last (snd kv))
               (map (\<lambda>k. (k, mean (prices_of key k df))) (rev (remdups (rev (column key df))))))"

text \<open>
  \<open>mean_le a b\<close>: the mean price of the group \<open>a\<close> is a number and at most that of \<open>b\<close>.
\<close>

definition mean_le :: "'k \<times> rat option \<Rightarrow> 'k \<times> rat option \<Rightarrow> bool" where
  "mean_le a b = (case (snd a, snd b) of (Some x, Some y) \<Rightarrow> x \<le> y | _ \<Rightarrow> False)"

text \<open>
  Two choices for the examples. \<open>in_place\<close> gives every position the same priority, so
  equal values stay in the order of the series: what numpy does with a series of two equal
  values. \<open>last_first\<close> puts the later of two equal values first.
\<close>

definition in_place :: "'v list \<Rightarrow> nat \<Rightarrow> nat" where
  "in_place vals i = 0"

definition last_first :: "'v list \<Rightarrow> nat \<Rightarrow> nat" where
  "last_first vals i = length vals - i"

text \<open>
  Two more tables for the examples: marketplaces A, B, C with mean prices 1000, 800 and
  1200, and two marketplaces of equal mean price, the alphabetically later one first.
\<close>

definition abc_rows :: frame where
  "abc_rows =
     [(0, laptop ''X'' 1300 ''C''), (1, laptop ''Y'' 900 ''A''), (2, laptop ''X'' 700 ''B''),
      (3, laptop ''Y'' 1100 ''A''), (4, laptop ''X'' 1100 ''C''), (5, laptop ''Y'' 900 ''B'')]"

definition tie_rows :: frame where
  "tie_rows = [(0, laptop ''X'' 1000 ''Flipkart''), (1, laptop ''Y'' 1000 ''Amazon'')]"

section \<open>Objects and references\<close>

text \<open>
  Whether a function mutates its argument is a question about objects, not values. The
  objects of the program are in a store, a list indexed by reference; a variable holds a
  reference. \<open>new\<close> allocates at the end of the store. Reading a reference as a frame
  fails (\<open>None\<close>, Python's exception) when the object is not a frame.
\<close>

datatype pyobj =
    DataFrame frame
  | Stats "(string \<times> rat option \<times> nat) list"
  | Series "(string \<times> rat option) list"
  | Counts "(string \<times> nat) list"

type_synonym heap = "pyobj list"

definition new :: "pyobj \<Rightarrow> heap \<Rightarrow> nat \<times> heap" where
  "new v h = (length h, h @ [v])"

definition frame_at :: "heap \<Rightarrow> nat \<Rightarrow> frame option" where
  "frame_at h ref =
     (if ref < length h then (case h ! ref of DataFrame f \<Rightarrow> Some f | _ \<Rightarrow> None) else None)"

definition series_at :: "heap \<Rightarrow> nat \<Rightarrow> (string \<times> rat option) list option" where
  "series_at h ref =
     (if ref < length h then (case h ! ref of Series s \<Rightarrow> Some s | _ \<Rightarrow> None) else None)"

definition stats_at :: "heap \<Rightarrow> nat \<Rightarrow> (string \<times> rat option \<times> nat) list option" where
  "stats_at h ref =
     (if ref < length h then (case h ! ref of Stats s \<Rightarrow> Some s | _ \<Rightarrow> None) else None)"

definition counts_at :: "heap \<Rightarrow> nat \<Rightarrow> (string \<times> nat) list option" where
  "counts_at h ref =
     (if ref < length h then (case h ! ref of Counts s \<Rightarrow> Some s | _ \<Rightarrow> None) else None)"

text \<open>
  \<^verbatim>\<open>df.copy()\<close> and \<^verbatim>\<open>filtered_df[m]\<close> both build a new object and leave their
  operand alone. \<^verbatim>\<open>filter_data\<close> on references follows: each assignment rebinds the local
  variable \<^verbatim>\<open>filtered_df\<close> to the reference of the new object.
\<close>

definition copy :: "nat \<Rightarrow> heap \<Rightarrow> (nat \<times> heap) option" where
  "copy df h = do { f \<leftarrow> frame_at h df; Some (new (DataFrame f) h) }"

definition getitem :: "(listing \<Rightarrow> bool) \<Rightarrow> nat \<Rightarrow> heap \<Rightarrow> (nat \<times> heap) option" where
  "getitem keep df h = do { f \<leftarrow> frame_at h df; Some (new (DataFrame (select_rows keep f)) h) }"

definition filter_data_heap ::
  "nat \<Rightarrow> string \<Rightarrow> string list \<Rightarrow> rat \<times> rat \<Rightarrow> string list \<Rightarrow> int list \<Rightarrow> int list \<Rightarrow> heap
     \<Rightarrow> (nat \<times> heap) option" where
  "filter_data_heap df city brands price_range platforms ram_sizes storage_sizes h =
     do {
       (filtered_df, h) \<leftarrow> copy df h;
       (filtered_df, h) \<leftarrow>
         (if city \<noteq> ''All'' then getitem (\<lambda>r. City r = city) filtered_df h
          else Some (filtered_df, h));
       (filtered_df, h) \<leftarrow>
         (if brands \<noteq> [] then getitem (\<lambda>r. Brand r \<in> set brands) filtered_df h
          else Some (filtered_df, h));
       (filtered_df, h) \<leftarrow>
         getitem (\<lambda>r. Price r \<ge> fst price_range \<and> Price r \<le> snd price_range) filtered_df h;
       (filtered_df, h) \<leftarrow>
         (if platforms \<noteq> [] then getitem (\<lambda>r. Platform r \<in> set platforms) filtered_df h
          else Some (filtered_df, h));
       (filtered_df, h) \<leftarrow>
         (if ram_sizes \<noteq> [] then getitem (\<lambda>r. RAM_Size r \<in> set ram_sizes) filtered_df h
          else Some (filtered_df, h));
       (filtered_df, h) \<leftarrow>
         (if storage_sizes \<noteq> []
          then getitem (\<lambda>r. Storage_Capacity r \<in> set storage_sizes) filtered_df h
          else Some (filtered_df, h));
       Some (filtered_df, h)
     }"

text \<open>
  The aggregations on references. Every pandas call in them returns a new object. The one
  assignment in place, \<^verbatim>\<open>platform_stats.columns = [...]\<close>, relabels the columns of the
  table that \<^verbatim>\<open>groupby(...).agg(...).reset_index()\<close> has just built; column labels are
  not part of the model, so the object's value stays.
\<close>

definition groupby_mean_heap :: "nat \<Rightarrow> heap \<Rightarrow> (nat \<times> heap) option" where
  "groupby_mean_heap df h =
     do { f \<leftarrow> frame_at h df; Some (new (Series (agg_mean (groupby_price Platform f))) h) }"

definition sort_values_heap ::
  "(rat option list \<Rightarrow> nat \<Rightarrow> nat) \<Rightarrow> nat \<Rightarrow> heap \<Rightarrow> (nat \<times> heap) option" where
  "sort_values_heap tie s h =
     do { v \<leftarrow> series_at h s; Some (new (Series (sort_values tie v)) h) }"

definition head_heap :: "nat \<Rightarrow> nat \<Rightarrow> heap \<Rightarrow> (nat \<times> heap) option" where
  "head_heap n s h = do { v \<leftarrow> series_at h s; Some (new (Series (head n v)) h) }"

definition get_cheapest_platforms_heap ::
  "(rat option list \<Rightarrow> nat \<Rightarrow> nat) \<Rightarrow> nat \<Rightarrow> heap \<Rightarrow> (nat \<times> heap) option" where
  "get_cheapest_platforms_heap tie df h =
     do {
       (means, h) \<leftarrow> groupby_mean_heap df h;
       (platform_avg_price, h) \<leftarrow> sort_values_heap tie means h;
       head_heap 2 platform_avg_price h
     }"

definition groupby_agg_heap :: "nat \<Rightarrow> heap \<Rightarrow> (nat \<times> heap) option" where
  "groupby_agg_heap df h =
     do { f \<leftarrow> frame_at h df; Some (new (Stats (agg_mean_count (groupby_price Platform f))) h) }"

definition set_columns :: "nat \<Rightarrow> heap \<Rightarrow> heap option" where
  "set_columns s h = do { v \<leftarrow> stats_at h s; Some (h[s := Stats v]) }"

definition platform_stats_heap :: "nat \<Rightarrow> heap \<Rightarrow> (nat \<times> heap) option" where
  "platform_stats_heap df h =
     do {
       (platform_stats, h) \<leftarrow> groupby_agg_heap df h;
       h \<leftarrow> set_columns platform_stats h;
       Some (platform_stats, h)
     }"

definition platform_counts_heap ::
  "(nat list \<Rightarrow> nat \<Rightarrow> nat) \<Rightarrow> nat \<Rightarrow> heap \<Rightarrow> (nat \<times> heap) option" where
  "platform_counts_heap tie df h =
     do { f \<leftarrow> frame_at h df; Some (new (Counts (value_counts tie (column Platform f))) h) }"

text \<open>
  \<open>unchanged h h'\<close>: every object of the store \<open>h\<close> is in \<open>h'\<close> under its reference with
  its value. \<open>fresh_frame h f s\<close>: the reference of \<open>s\<close> is to an object allocated after
  \<open>h\<close>, a frame of value \<open>f\<close>, in a store in which \<open>h\<close> is unchanged.
\<close>

definition unchanged :: "heap \<Rightarrow> heap \<Rightarrow> bool" where
  "unchanged h h' = (take (length h) h' = h)"



definition fresh_frame :: "heap \<Rightarrow> frame \<Rightarrow> nat \<times> heap \<Rightarrow> bool" where
  "fresh_frame h0 f s =
     (unchanged h0 (snd s) \<and> length h0 \<le> fst s \<and> frame_at (snd s) (fst s) = Some f)"

section \<open>Loading\<close>

text \<open>
  Python exceptions: the class of the exception and its message \<^verbatim>\<open>str(e)\<close>. The classes
  are those \<^verbatim>\<open>pd.read_csv\<close> and the column assignments can raise, together with the two
  that are not subclasses of \<^verbatim>\<open>Exception\<close>; the handler \<^verbatim>\<open>except Exception\<close> catches
  exactly the classes for which \<open>is_Exception\<close> holds.
\<close>

datatype exn_class =
  FileNotFoundError | PermissionError | EmptyDataError | ParserError | UnicodeDecodeError
  | ValueError | MemoryError | KeyboardInterrupt | SystemExit

datatype exn = Raised exn_class string

fun is_Exception :: "exn_class \<Rightarrow> bool" where
  "is_Exception KeyboardInterrupt = False"
| "is_Exception SystemExit = False"
| "is_Exception _ = True"

text \<open>
  numpy's global generator is not part of the repository: it is a parameter, its state an
  abstract type. \<^verbatim>\<open>np.random.seed(s)\<close> replaces the state by one that depends on \<open>s\<close>
  only; \<^verbatim>\<open>choice\<close> and \<^verbatim>\<open>uniform\<close> read the state and return the sample with the next
  state. The process state that \<^verbatim>\<open>load_data\<close> touches is the generator's state and the
  messages shown by \<^verbatim>\<open>st.error\<close>.
\<close>

record 'g np_random =
  random_seed :: "nat \<Rightarrow> 'g"
  random_choice :: "'g \<Rightarrow> string list \<Rightarrow> nat \<Rightarrow> string list \<times> 'g"
  random_uniform :: "'g \<Rightarrow> rat \<Rightarrow> rat \<Rightarrow> nat \<Rightarrow> rat list \<times> 'g"

record 'g world =
  rng_state :: 'g
  st_errors :: "string list"

text \<open>
  \<^verbatim>\<open>.round(1)\<close> of numpy: scale by ten, round to the nearest integer with halves to the
  even neighbour, scale back.
\<close>

definition rint :: "rat \<Rightarrow> int" where
  "rint x =
     (let f = \<lfloor>x\<rfloor>; d = x - of_int f
      in if d < 1 / 2 then f else if 1 / 2 < d then f + 1 else if even f then f else f + 1)"

definition round1 :: "rat \<Rightarrow> rat" where
  "round1 x = of_int (rint (x * 10)) / 10"

text \<open>
  \<^verbatim>\<open>load_data\<close> never looks at a column of the file, so a row of the file is of any type
  \<open>'r\<close>; the loaded frame pairs each row, under its index label \<open>0, 1, \<dots>\<close>, with the cells
  of the three new columns. Assigning a column whose length is not the number of rows raises
  \<^verbatim>\<open>ValueError\<close> in pandas. \<open>load_body\<close> is the body of the \<^verbatim>\<open>try\<close>, with the outcome of
  \<^verbatim>\<open>pd.read_csv\<close> as its argument; \<open>load_data\<close> adds the handler, \<open>Inl\<close> being an
  exception that leaves the function.
\<close>

type_synonym 'r loaded_frame = "(nat \<times> 'r \<times> string \<times> string \<times> rat) list"

definition length_mismatch :: exn where
  "length_mismatch = Raised ValueError ''Length of values does not match length of index''"

definition load_body ::
  "'g np_random \<Rightarrow> exn + 'r list \<Rightarrow> 'g \<Rightarrow> (exn + 'r loaded_frame) \<times> 'g" where
  "load_body np csv g =
     (case csv of
        Inl e \<Rightarrow> (Inl e, g)
      | Inr df \<Rightarrow>
          (let platforms = [''Amazon'', ''Flipkart'', ''Reliance Digital'', ''Croma'', ''Vijay Sales''];
               g = random_seed np 42;
               (platform, g) = random_choice np g platforms (length df)
           in if length platform \<noteq> length df then (Inl length_mismatch, g)
              else
                let cities = [''Bhopal'', ''Mumbai'', ''Delhi'', ''Bangalore'', ''Chennai'',
                              ''Kolkata'', ''Pune'', ''Hyderabad''];
                    (city, g) = random_choice np g cities (length df)
                in if length city \<noteq> length df then (Inl length_mismatch, g)
                   else
                     let (u, g) = random_uniform np g 3 5 (length df);
                         rating = map round1 u
                     in if length rating \<noteq> length df then (Inl length_mismatch, g)
                        else (Inr (zip [0..<length df] (zip df (zip platform (zip city rating)))),
                              g)))"

definition load_data ::
  "'g np_random \<Rightarrow> exn + 'r list \<Rightarrow> 'g world \<Rightarrow> (exn + 'r loaded_frame option) \<times> 'g world" where
  "load_data np csv w =
     (case load_body np csv (rng_state w) of
        (Inr df, g) \<Rightarrow> (Inr (Some df), w\<lparr>rng_state := g\<rparr>)
      | (Inl (Raised c msg), g) \<Rightarrow>
          if is_Exception c
          then (Inr None,
                w\<lparr>rng_state := g, st_errors := st_errors w @ [''Error loading data: '' @ msg]\<rparr>)
          else (Inl (Raised c msg), w\<lparr>rng_state := g\<rparr>))"

text \<open>
  A loaded row of the laptop file as a listing of the filter's table.
\<close>

definition as_listing :: "raw_listing \<times> string \<times> string \<times> rat \<Rightarrow> listing" where
  "as_listing row =
     (case row of (r, platform, city, rating) \<Rightarrow>
        raw_listing.extend r \<lparr>Platform = platform, City = city, Rating = rating\<rparr>)"

definition to_frame :: "raw_listing loaded_frame \<Rightarrow> frame" where
  "to_frame df = map (\<lambda>ir. (fst ir, as_listing (snd ir))) df"

text \<open>
  A generator for the examples: its state is a counter.
\<close>

definition counter_rng :: "nat np_random" where
  "counter_rng =
     \<lparr>random_seed = (\<lambda>s. s),
      random_choice = (\<lambda>g a n. (map (\<lambda>i. a ! ((g + i) mod length a)) [0..<n], g + n)),
      random_uniform =
        (\<lambda>g lo hi n. (map (\<lambda>i. lo + (hi - lo) * of_nat ((g + i) mod 8) / 8) [0..<n], g + n))\<rparr>"

section \<open>Properties of the filter\<close>

lemma select_rows_twice:
  "select_rows p (select_rows q df) = select_rows (\<lambda>r. q r \<and> p r) df"
  by (simp add: select_rows_def)

lemma filter_data_eq:
  "filter_data df city brands price_range platforms ram_sizes storage_sizes =
   select_rows (satisfies_spec city brands price_range platforms ram_sizes storage_sizes) df"
proof -
  have sel: "select_rows p df = select_rows q df" if "\<And>r. p r = q r" for p q
    using that by (simp add: select_rows_def)
  show ?thesis
    unfolding filter_data_def Let_def
    by (simp add: select_rows_twice)
       (auto simp: satisfies_spec_def city_ok_def member_ok_def price_ok_def intro!: sel)
qed

text \<open>
  C1. For every table and every filter specification, \<^verbatim>\<open>filter_data\<close> returns exactly the
  rows of the input that satisfy the conjunction of the active predicates (city equality
  unless the city is \<^verbatim>\<open>All\<close>, brand membership, price within the interval, marketplace,
  ram-size and storage-size membership), in their original order.
\<close>

theorem filter_data_conjunction:
  "filter_data df city brands price_range platforms ram_sizes storage_sizes =
   filter
     (\<lambda>ir. satisfies_spec city brands price_range platforms ram_sizes storage_sizes (snd ir))
     df"
  by (simp add: filter_data_eq select_rows_def)

theorem filter_data_conjunction_witness:
  "filter_data five_rows ''Bhopal'' [''X''] (12000, 30000) [''Amazon'', ''Croma''] [8] [] =
   [(2, laptop ''X'' 15000 ''Amazon''), (4, laptop ''X'' 25000 ''Croma'')]"
  using filter_data_conjunction
    [of five_rows "''Bhopal''" "[''X'']" "(12000, 30000)" "[''Amazon'', ''Croma'']" "[8]" "[]"]
  by (simp add: five_rows_def laptop_def satisfies_spec_def city_ok_def member_ok_def
      price_ok_def)

text \<open>
  C7. The filter is idempotent: filtering the output of the filter again with the same
  specification returns the same table.
\<close>

theorem filter_data_idempotent:
  "filter_data (filter_data df city brands price_range platforms ram_sizes storage_sizes)
     city brands price_range platforms ram_sizes storage_sizes =
   filter_data df city brands price_range platforms ram_sizes storage_sizes"
  by (simp add: filter_data_eq select_rows_twice)

lemma length_filter_imp:
  "(\<And>x. x \<in> set xs \<Longrightarrow> P x \<Longrightarrow> Q x) \<Longrightarrow> length (filter P xs) \<le> length (filter Q xs)"
  by (induction xs) auto

lemma select_rows_mono:
  "(\<And>r. p r \<Longrightarrow> q r) \<Longrightarrow> length (select_rows p df) \<le> length (select_rows q df)"
  unfolding select_rows_def by (rule length_filter_imp) simp

lemma member_ok_narrow:
  "selected' \<noteq> [] \<Longrightarrow> set selected' \<subseteq> set selected \<Longrightarrow> member_ok selected' v
     \<Longrightarrow> member_ok selected v"
  by (auto simp: member_ok_def)

text \<open>
  C2. When the selected brand set (likewise the marketplace, ram-size or storage-size set)
  is empty, that dimension imposes no constraint: the result is the rows satisfying the
  conjunction of the remaining predicates, with the predicate of that dimension absent,
  and not the empty table.
\<close>

theorem empty_selection_no_constraint:
  "filter_data df city [] price_range platforms ram_sizes storage_sizes =
     filter (\<lambda>ir. city_ok city (snd ir) \<and> price_ok price_range (snd ir) \<and>
                 member_ok platforms (Platform (snd ir)) \<and>
                 member_ok ram_sizes (RAM_Size (snd ir)) \<and>
                 member_ok storage_sizes (Storage_Capacity (snd ir))) df \<and>
   filter_data df city brands price_range [] ram_sizes storage_sizes =
     filter (\<lambda>ir. city_ok city (snd ir) \<and> member_ok brands (Brand (snd ir)) \<and>
                 price_ok price_range (snd ir) \<and>
                 member_ok ram_sizes (RAM_Size (snd ir)) \<and>
                 member_ok storage_sizes (Storage_Capacity (snd ir))) df \<and>
   filter_data df city brands price_range platforms [] storage_sizes =
     filter (\<lambda>ir. city_ok city (snd ir) \<and> member_ok brands (Brand (snd ir)) \<and>
                 price_ok price_range (snd ir) \<and>
                 member_ok platforms (Platform (snd ir)) \<and>
                 member_ok storage_sizes (Storage_Capacity (snd ir))) df \<and>
   filter_data df city brands price_range platforms ram_sizes [] =
     filter (\<lambda>ir. city_ok city (snd ir) \<and> member_ok brands (Brand (snd ir)) \<and>
                 price_ok price_range (snd ir) \<and>
                 member_ok platforms (Platform (snd ir)) \<and>
                 member_ok ram_sizes (RAM_Size (snd ir))) df"
  by (simp add: filter_data_eq select_rows_def satisfies_spec_def member_ok_def)

theorem empty_selection_no_constraint_witness:
  "filter_data five_rows ''All'' [] (0, 50000) [] [] [] = five_rows"
  using empty_selection_no_constraint [of five_rows "''All''" "(0, 50000)" "[]" "[]" "[]"]
  by (simp add: five_rows_def laptop_def city_ok_def member_ok_def price_ok_def)

text \<open>
  C5, as stated, fails: removing the only selected brand leaves the empty selection, which
  the guard \<^verbatim>\<open>if brands:\<close> treats as no constraint, and the result grows from the three
  listings of brand X to all five.
\<close>

theorem narrowing_brands_counterexample:
  "length (filter_data five_rows ''All'' [''X''] (0, 50000) [] [] []) <
   length (filter_data five_rows ''All'' (removeAll ''X'' [''X'']) (0, 50000) [] [] [])"
  by (simp add: filter_data_eq select_rows_def satisfies_spec_def city_ok_def member_ok_def
      price_ok_def five_rows_def laptop_def)

text \<open>
  C5, amended. Shrinking the price interval never increases the number of rows of the
  result, and neither does removing elements from the brand, marketplace, ram-size or
  storage-size selection as long as the narrowed selection is still non-empty.
\<close>

theorem filter_data_monotone:
  "(low \<le> low' \<and> high' \<le> high \<longrightarrow>
      length (filter_data df city brands (low', high') platforms ram_sizes storage_sizes) \<le>
      length (filter_data df city brands (low, high) platforms ram_sizes storage_sizes)) \<and>
   (brands' \<noteq> [] \<and> set brands' \<subseteq> set brands \<longrightarrow>
      length (filter_data df city brands' price_range platforms ram_sizes storage_sizes) \<le>
      length (filter_data df city brands price_range platforms ram_sizes storage_sizes)) \<and>
   (platforms' \<noteq> [] \<and> set platforms' \<subseteq> set platforms \<longrightarrow>
      length (filter_data df city brands price_range platforms' ram_sizes storage_sizes) \<le>
      length (filter_data df city brands price_range platforms ram_sizes storage_sizes)) \<and>
   (ram_sizes' \<noteq> [] \<and> set ram_sizes' \<subseteq> set ram_sizes \<longrightarrow>
      length (filter_data df city brands price_range platforms ram_sizes' storage_sizes) \<le>
      length (filter_data df city brands price_range platforms ram_sizes storage_sizes)) \<and>
   (storage_sizes' \<noteq> [] \<and> set storage_sizes' \<subseteq> set storage_sizes \<longrightarrow>
      length (filter_data df city brands price_range platforms ram_sizes storage_sizes') \<le>
      length (filter_data df city brands price_range platforms ram_sizes storage_sizes))"
proof (intro conjI impI)
  assume "low \<le> low' \<and> high' \<le> high"
  then show "length (filter_data df city brands (low', high') platforms ram_sizes storage_sizes)
      \<le> length (filter_data df city brands (low, high) platforms ram_sizes storage_sizes)"
    unfolding filter_data_eq
    by (intro select_rows_mono) (auto simp: satisfies_spec_def price_ok_def)
next
  assume "brands' \<noteq> [] \<and> set brands' \<subseteq> set brands"
  then show "length (filter_data df city brands' price_range platforms ram_sizes storage_sizes)
      \<le> length (filter_data df city brands price_range platforms ram_sizes storage_sizes)"
    unfolding filter_data_eq
    by (intro select_rows_mono) (auto simp: satisfies_spec_def dest: member_ok_narrow)
next
  assume "platforms' \<noteq> [] \<and> set platforms' \<subseteq> set platforms"
  then show "length (filter_data df city brands price_range platforms' ram_sizes storage_sizes)
      \<le> length (filter_data df city brands price_range platforms ram_sizes storage_sizes)"
    unfolding filter_data_eq
    by (intro select_rows_mono) (auto simp: satisfies_spec_def dest: member_ok_narrow)
next
  assume "ram_sizes' \<noteq> [] \<and> set ram_sizes' \<subseteq> set ram_sizes"
  then show "length (filter_data df city brands price_range platforms ram_sizes' storage_sizes)
      \<le> length (filter_data df city brands price_range platforms ram_sizes storage_sizes)"
    unfolding filter_data_eq
    by (intro select_rows_mono) (auto simp: satisfies_spec_def dest: member_ok_narrow)
next
  assume "storage_sizes' \<noteq> [] \<and> set storage_sizes' \<subseteq> set storage_sizes"
  then show "length (filter_data df city brands price_range platforms ram_sizes storage_sizes')
      \<le> length (filter_data df city brands price_range platforms ram_sizes storage_sizes)"
    unfolding filter_data_eq
    by (intro select_rows_mono) (auto simp: satisfies_spec_def dest: member_ok_narrow)
qed

theorem filter_data_monotone_witness:
  "length (filter_data five_rows ''All'' [''X'', ''Y''] (15000, 25000) [''Amazon'', ''Croma'']
             [8, 16] [512, 256]) \<le>
   length (filter_data five_rows ''All'' [''X'', ''Y''] (10000, 30000) [''Amazon'', ''Croma'']
             [8, 16] [512, 256]) \<and>
   length (filter_data five_rows ''All'' [''X''] (0, 50000) [''Amazon'', ''Croma''] [8, 16]
             [512, 256]) \<le>
   length (filter_data five_rows ''All'' [''X'', ''Y''] (0, 50000) [''Amazon'', ''Croma'']
             [8, 16] [512, 256]) \<and>
   length (filter_data five_rows ''All'' [''X'', ''Y''] (0, 50000) [''Amazon''] [8, 16]
             [512, 256]) \<le>
   length (filter_data five_rows ''All'' [''X'', ''Y''] (0, 50000) [''Amazon'', ''Croma'']
             [8, 16] [512, 256]) \<and>
   length (filter_data five_rows ''All'' [''X'', ''Y''] (0, 50000) [''Amazon'', ''Croma''] [8]
             [512, 256]) \<le>
   length (filter_data five_rows ''All'' [''X'', ''Y''] (0, 50000) [''Amazon'', ''Croma'']
             [8, 16] [512, 256]) \<and>
   length (filter_data five_rows ''All'' [''X'', ''Y''] (0, 50000) [''Amazon'', ''Croma'']
             [8, 16] [512]) \<le>
   length (filter_data five_rows ''All'' [''X'', ''Y''] (0, 50000) [''Amazon'', ''Croma'']
             [8, 16] [512, 256])"
  using
    filter_data_monotone [where low = 10000 and low' = 15000 and high' = 25000 and high = 30000
      and df = five_rows and city = "''All''" and brands = "[''X'', ''Y'']" and brands' = "[''X'']"
      and platforms = "[''Amazon'', ''Croma'']" and platforms' = "[''Amazon'']"
      and ram_sizes = "[8, 16]" and ram_sizes' = "[8]"
      and storage_sizes = "[512, 256]" and storage_sizes' = "[512]"
      and price_range = "(0, 50000)"]
  by simp

lemma column_select_price:
  "column Price (select_rows (\<lambda>r. q (Price r)) df) = filter q (column Price df)"
  by (simp add: column_def select_rows_def filter_map comp_def)

lemma only_price_active:
  "satisfies_spec ''All'' [] price_range [] [] [] =
   (\<lambda>r. fst price_range \<le> Price r \<and> Price r \<le> snd price_range)"
  by (simp add: satisfies_spec_def city_ok_def member_ok_def price_ok_def fun_eq_iff)

text \<open>
  C4. The price interval is inclusive at both ends: a row of the table that passes the
  other active predicates and whose price equals \<open>low\<close> or \<open>high\<close> of an interval
  \<open>low \<le> high\<close> is in the result. For a table whose prices are 10000, 20000, 15000,
  30000, 25000, filtering by the interval from 15000 to 25000 alone leaves the rows priced
  20000, 15000 and 25000 (in table order), and the mean price of the result is 20000.
\<close>

theorem price_interval_inclusive:
  "(ir \<in> set df \<and> low \<le> high \<and> (Price (snd ir) = low \<or> Price (snd ir) = high) \<and>
    city_ok city (snd ir) \<and> member_ok brands (Brand (snd ir)) \<and>
    member_ok platforms (Platform (snd ir)) \<and> member_ok ram_sizes (RAM_Size (snd ir)) \<and>
    member_ok storage_sizes (Storage_Capacity (snd ir)) \<longrightarrow>
      ir \<in> set (filter_data df city brands (low, high) platforms ram_sizes storage_sizes)) \<and>
   (column Price t = [10000, 20000, 15000, 30000, 25000] \<longrightarrow>
      column Price (filter_data t ''All'' [] (15000, 25000) [] [] []) = [20000, 15000, 25000] \<and>
      mean (column Price (filter_data t ''All'' [] (15000, 25000) [] [] [])) = Some 20000)"
proof (intro conjI impI)
  assume "ir \<in> set df \<and> low \<le> high \<and> (Price (snd ir) = low \<or> Price (snd ir) = high) \<and>
    city_ok city (snd ir) \<and> member_ok brands (Brand (snd ir)) \<and>
    member_ok platforms (Platform (snd ir)) \<and> member_ok ram_sizes (RAM_Size (snd ir)) \<and>
    member_ok storage_sizes (Storage_Capacity (snd ir))"
  then show "ir \<in> set (filter_data df city brands (low, high) platforms ram_sizes storage_sizes)"
    by (auto simp: filter_data_eq select_rows_def satisfies_spec_def price_ok_def)
next
  assume prices: "column Price t = [10000, 20000, 15000, 30000, 25000]"
  have kept: "column Price (filter_data t ''All'' [] (15000, 25000) [] [] []) =
      filter (\<lambda>p. 15000 \<le> p \<and> p \<le> 25000) (column Price t)"
    by (simp add: filter_data_eq only_price_active
        column_select_price [where q = "\<lambda>p. 15000 \<le> p \<and> p \<le> 25000"])
  then show three: "column Price (filter_data t ''All'' [] (15000, 25000) [] [] []) =
      [20000, 15000, 25000]"
    by (simp add: prices)
  show "mean (column Price (filter_data t ''All'' [] (15000, 25000) [] [] [])) = Some 20000"
    by (simp add: three mean_def)
qed

theorem price_interval_inclusive_witness:
  "(1, laptop ''Y'' 20000 ''Croma'') \<in> set (filter_data five_rows ''All'' [] (20000, 30000) [] [] []) \<and>
   (3, laptop ''Y'' 30000 ''Flipkart'') \<in> set (filter_data five_rows ''All'' [] (20000, 30000) [] [] []) \<and>
   column Price five_rows = [10000, 20000, 15000, 30000, 25000] \<and>
   length (filter_data five_rows ''All'' [] (15000, 25000) [] [] []) = 3 \<and>
   column Price (filter_data five_rows ''All'' [] (15000, 25000) [] [] []) = [20000, 15000, 25000] \<and>
   mean (column Price (filter_data five_rows ''All'' [] (15000, 25000) [] [] [])) = Some 20000"
proof -
  have prices: "column Price five_rows = [10000, 20000, 15000, 30000, 25000]"
    by (simp add: column_def five_rows_def laptop_def)
  have lo: "(1, laptop ''Y'' 20000 ''Croma'') \<in> set (filter_data five_rows ''All'' [] (20000, 30000) [] [] [])"
    using price_interval_inclusive [where ir = "(1, laptop ''Y'' 20000 ''Croma'')"
        and df = five_rows and low = 20000 and high = 30000 and city = "''All''"
        and brands = "[]" and platforms = "[]" and ram_sizes = "[]" and storage_sizes = "[]"]
    by (simp add: five_rows_def laptop_def city_ok_def member_ok_def)
  have hi: "(3, laptop ''Y'' 30000 ''Flipkart'') \<in> set (filter_data five_rows ''All'' [] (20000, 30000) [] [] [])"
    using price_interval_inclusive [where ir = "(3, laptop ''Y'' 30000 ''Flipkart'')"
        and df = five_rows and low = 20000 and high = 30000 and city = "''All''"
        and brands = "[]" and platforms = "[]" and ram_sizes = "[]" and storage_sizes = "[]"]
    by (simp add: five_rows_def laptop_def city_ok_def member_ok_def)
  have ex: "column Price (filter_data five_rows ''All'' [] (15000, 25000) [] [] []) = [20000, 15000, 25000] \<and>
      mean (column Price (filter_data five_rows ''All'' [] (15000, 25000) [] [] [])) = Some 20000"
    by (rule price_interval_inclusive [where t = five_rows, THEN conjunct2, THEN mp, OF prices])
  then have "length (column Price (filter_data five_rows ''All'' [] (15000, 25000) [] [] [])) = 3"
    by simp
  then have len: "length (filter_data five_rows ''All'' [] (15000, 25000) [] [] []) = 3"
    by (simp add: column_def)
  show ?thesis using prices lo hi ex len by blast
qed

section \<open>Properties of the aggregations\<close>

lemma zip_positions: "map fst (zip xs [0..<length xs]) = xs"
  by simp

lemma sort_by_rank_set: "set (sort_by_rank rank xs) = set xs"
proof -
  have "set (sort_by_rank rank xs) = fst ` set (zip xs [0..<length xs])"
    by (simp add: sort_by_rank_def)
  also have "\<dots> = set (map fst (zip xs [0..<length xs]))"
    by (simp only: set_map)
  also have "\<dots> = set xs"
    by (simp only: zip_positions)
  finally show ?thesis .
qed

lemma sort_by_rank_length: "length (sort_by_rank rank xs) = length xs"
  by (simp add: sort_by_rank_def)

lemma sort_by_rank_distinct:
  "distinct (map f xs) \<Longrightarrow> distinct (map f (sort_by_rank rank xs))"
proof -
  assume d: "distinct (map f xs)"
  have "distinct (map (\<lambda>e. f (fst e)) (zip xs [0..<length xs]))"
    using d zip_positions [of xs]
    by (metis (no_types, lifting) map_map comp_def map_eq_conv)
  then have "distinct (map (\<lambda>e. f (fst e)) (sort_key rank (zip xs [0..<length xs])))"
    by (simp add: distinct_map)
  then show ?thesis
    by (simp add: sort_by_rank_def comp_def)
qed

lemma sort_by_rank_sorted:
  "sorted_wrt (\<lambda>a b. \<exists>i j. rank (a, i) \<le> rank (b, j)) (sort_by_rank rank xs)"
proof -
  have "sorted (map rank (sort_key rank (zip xs [0..<length xs])))"
    by (rule sorted_sort_key)
  then have "sorted_wrt (\<lambda>e e'. rank e \<le> rank e') (sort_key rank (zip xs [0..<length xs]))"
    by (simp add: sorted_map)
  then have "sorted_wrt (\<lambda>e e'. \<exists>i j. rank (fst e, i) \<le> rank (fst e', j))
      (sort_key rank (zip xs [0..<length xs]))"
    by (rule sorted_wrt_mono_rel [rotated]) (metis prod.collapse)
  then show ?thesis
    by (simp add: sort_by_rank_def sorted_wrt_map)
qed

lemma sort_values_set: "set (sort_values tie s) = set s"
  by (simp add: sort_values_def sort_by_rank_set)

lemma sort_values_length: "length (sort_values tie s) = length s"
  by (simp add: sort_values_def sort_by_rank_length)

lemma sort_values_distinct_keys:
  "distinct (map fst s) \<Longrightarrow> distinct (map fst (sort_values tie s))"
  by (simp add: sort_values_def sort_by_rank_distinct)

lemma sort_rank_mean_le:
  "snd a \<noteq> None \<Longrightarrow> snd b \<noteq> None \<Longrightarrow> sort_rank prio (a, i) \<le> sort_rank prio (b, j) \<Longrightarrow>
     mean_le a b"
  by (cases a; cases b) (auto simp: mean_le_def less_eq_prod_def)

lemma sort_values_sorted:
  "\<forall>a\<in>set s. snd a \<noteq> None \<Longrightarrow> sorted_wrt mean_le (sort_values tie s)"
proof -
  assume some: "\<forall>a\<in>set s. snd a \<noteq> None"
  have "sorted_wrt (\<lambda>a b. \<exists>i j. sort_rank (tie (map snd s)) (a, i) \<le>
      sort_rank (tie (map snd s)) (b, j)) (sort_values tie s)"
    unfolding sort_values_def by (rule sort_by_rank_sorted)
  then show ?thesis
  proof (rule sorted_wrt_mono_rel [rotated])
    fix a b
    assume "a \<in> set (sort_values tie s)" "b \<in> set (sort_values tie s)"
      and "\<exists>i j. sort_rank (tie (map snd s)) (a, i) \<le> sort_rank (tie (map snd s)) (b, j)"
    with some show "mean_le a b"
      using sort_rank_mean_le [of a b] by (auto simp: sort_values_set)
  qed
qed

lemma prices_of_nonempty:
  "k \<in> set (column key df) \<Longrightarrow> prices_of key k df \<noteq> []"
  by (auto simp: prices_of_def column_def select_rows_def filter_empty_conv)

lemma groupby_price_keys:
  "map fst (groupby_price key df) = sort (remdups (column key df))"
  by (simp add: groupby_price_def comp_def)

lemma agg_mean_keys: "map fst (agg_mean groups) = map fst groups"
  by (simp add: agg_mean_def comp_def)

lemma group_means_member:
  "a \<in> set (agg_mean (groupby_price key df)) \<Longrightarrow>
     fst a \<in> set (column key df) \<and> snd a = mean (prices_of key (fst a) df) \<and> snd a \<noteq> None"
  by (auto simp: agg_mean_def groupby_price_def mean_def prices_of_nonempty)

lemma group_means_complete:
  "k \<in> set (column key df) \<Longrightarrow>
     (k, mean (prices_of key k df)) \<in> set (agg_mean (groupby_price key df))"
  by (force simp: agg_mean_def groupby_price_def)

lemma platform_means_sorted:
  "sorted_wrt mean_le (sort_values tie (agg_mean (groupby_price key df)))"
  using group_means_member [of _ key df] by (intro sort_values_sorted) blast

lemma platform_means_distinct:
  "distinct (map fst (sort_values tie (agg_mean (groupby_price key df))))"
  by (rule sort_values_distinct_keys) (simp add: agg_mean_keys groupby_price_keys)

lemma platform_means_length:
  "length (sort_values tie (agg_mean (groupby_price key df))) = card (set (column key df))"
  by (simp add: sort_values_length agg_mean_def groupby_price_def length_remdups_card_conv)

lemma three_means_sorted:
  "sort_values tie [(''A'', Some 1000), (''B'', Some 800), (''C'', Some 1200)] =
     [(''B'', Some 800), (''A'', Some 1000), (''C'', Some 1200)]"
  by (simp add: sort_values_def sort_by_rank_def less_eq_prod_def)

text \<open>
  C3, amended. Whatever the order numpy gives to equal values, \<^verbatim>\<open>get_cheapest_platforms\<close>
  returns \<open>min 2 g\<close> pairs, \<open>g\<close> the number of distinct marketplaces of the table; the
  pairs are of different marketplaces of the table, each with the mean price of its rows;
  they are in ascending order of mean price; every marketplace left out has a mean price
  at least that of each returned pair. Nothing is said of the order of two marketplaces of
  equal mean price. For marketplaces A, B, C with mean prices 1000, 800 and 1200 the
  result is B with 800, then A with 1000.
\<close>

theorem get_cheapest_platforms_sorted:
  "length (get_cheapest_platforms tie df) = min 2 (card (set (column Platform df))) \<and>
   distinct (map fst (get_cheapest_platforms tie df)) \<and>
   (\<forall>a \<in> set (get_cheapest_platforms tie df).
      fst a \<in> set (column Platform df) \<and> snd a = mean (prices_of Platform (fst a) df) \<and>
      snd a \<noteq> None) \<and>
   sorted_wrt mean_le (get_cheapest_platforms tie df) \<and>
   (\<forall>k \<in> set (column Platform df).
      (k, mean (prices_of Platform k df)) \<notin> set (get_cheapest_platforms tie df) \<longrightarrow>
      (\<forall>a \<in> set (get_cheapest_platforms tie df).
         mean_le a (k, mean (prices_of Platform k df)))) \<and>
   (agg_mean (groupby_price Platform t) = [(''A'', Some 1000), (''B'', Some 800), (''C'', Some 1200)]
      \<longrightarrow> get_cheapest_platforms tie t = [(''B'', Some 800), (''A'', Some 1000)])"
proof -
  define full where "full = sort_values tie (agg_mean (groupby_price Platform df))"
  have res: "get_cheapest_platforms tie df = take 2 full"
    by (simp add: get_cheapest_platforms_def head_def full_def)
  have len: "length (get_cheapest_platforms tie df) = min 2 (card (set (column Platform df)))"
    by (simp add: res full_def platform_means_length min.commute)
  have "distinct (map fst full)"
    unfolding full_def by (rule platform_means_distinct)
  then have dis: "distinct (map fst (get_cheapest_platforms tie df))"
    unfolding res take_map [symmetric] by (rule distinct_take)
  have sub: "set (take 2 full) \<subseteq> set (agg_mean (groupby_price Platform df))"
    using set_take_subset [of 2 full] by (simp add: full_def sort_values_set)
  have mem: "\<forall>a \<in> set (get_cheapest_platforms tie df).
      fst a \<in> set (column Platform df) \<and> snd a = mean (prices_of Platform (fst a) df) \<and>
      snd a \<noteq> None"
    using sub group_means_member [of _ Platform df] by (auto simp: res)
  have srt: "sorted_wrt mean_le (take 2 full @ drop 2 full)"
    by (simp add: full_def platform_means_sorted)
  then have srt2: "sorted_wrt mean_le (get_cheapest_platforms tie df)"
    unfolding res sorted_wrt_append by blast
  have rest: "mean_le a (k, mean (prices_of Platform k df))"
    if k: "k \<in> set (column Platform df)"
      and out: "(k, mean (prices_of Platform k df)) \<notin> set (get_cheapest_platforms tie df)"
      and a: "a \<in> set (get_cheapest_platforms tie df)" for k a
  proof -
    have split: "set full = set (take 2 full) \<union> set (drop 2 full)"
      by (metis append_take_drop_id set_append)
    have "(k, mean (prices_of Platform k df)) \<in> set full"
      using group_means_complete [OF k] by (simp add: full_def sort_values_set)
    with out split have "(k, mean (prices_of Platform k df)) \<in> set (drop 2 full)"
      by (auto simp: res)
    with srt a show ?thesis
      unfolding res sorted_wrt_append by blast
  qed
  have ex: "get_cheapest_platforms tie t = [(''B'', Some 800), (''A'', Some 1000)]"
    if "agg_mean (groupby_price Platform t) = [(''A'', Some 1000), (''B'', Some 800), (''C'', Some 1200)]"
    using that by (simp add: get_cheapest_platforms_def head_def three_means_sorted)
  show ?thesis
    using len dis mem srt2 rest ex by blast
qed

text \<open>
  C6. On the table with no rows the mean-price-by-group, count-by-group and cheapest-groups
  operations return the empty table. No mean divides by zero, on any table: every group
  that \<^verbatim>\<open>groupby\<close> forms has at least one row, so its mean is a number.
\<close>

theorem aggregation_empty_table:
  "platform_stats [] = [] \<and> platform_counts tie' [] = [] \<and>
   get_cheapest_platforms tie [] = [] \<and>
   agg_mean_count (groupby_price key []) = [] \<and> agg_mean (groupby_price key []) = [] \<and>
   value_counts tie' (column key []) = [] \<and>
   (\<forall>g \<in> set (platform_stats df). fst (snd g) \<noteq> None \<and> 0 < snd (snd g)) \<and>
   (\<forall>a \<in> set (get_cheapest_platforms tie df). snd a \<noteq> None)"
proof -
  have stats: "fst (snd g) \<noteq> None \<and> 0 < snd (snd g)" if "g \<in> set (platform_stats df)" for g
    using that
    by (auto simp: platform_stats_def agg_mean_count_def groupby_price_def mean_def
        prices_of_nonempty)
  have "set (get_cheapest_platforms tie df) \<subseteq> set (agg_mean (groupby_price Platform df))"
    using set_take_subset [of 2 "sort_values tie (agg_mean (groupby_price Platform df))"]
    by (simp add: get_cheapest_platforms_def head_def sort_values_set)
  then have cheap: "snd a \<noteq> None" if "a \<in> set (get_cheapest_platforms tie df)" for a
    using that group_means_member [of a Platform df] by blast
  have empty: "platform_stats [] = [] \<and> platform_counts tie' [] = [] \<and>
      get_cheapest_platforms tie [] = [] \<and> agg_mean_count (groupby_price key []) = [] \<and>
      agg_mean (groupby_price key []) = [] \<and> value_counts tie' (column key []) = []"
    by (simp add: platform_stats_def platform_counts_def get_cheapest_platforms_def
        agg_mean_count_def agg_mean_def groupby_price_def value_counts_def column_def
        sort_values_def sort_by_rank_def head_def)
  show ?thesis
    using stats cheap empty by blast
qed

text \<open>
  C3, as stated, fails on ties: Flipkart appears first in the table and Amazon second, both
  with mean price 1000. \<^verbatim>\<open>groupby\<close> lists the marketplaces by label, Amazon first, and
  the sort of the two equal means leaves them in place: the result lists Amazon first.
\<close>

theorem first_appearance_tie_counterexample:
  "column Platform tie_rows = [''Flipkart'', ''Amazon''] \<and>
   agg_mean (groupby_price Platform tie_rows) =
     [(''Amazon'', Some 1000), (''Flipkart'', Some 1000)] \<and>
   get_cheapest_platforms in_place tie_rows =
     [(''Amazon'', Some 1000), (''Flipkart'', Some 1000)] \<and>
   cheapestGroups_spec tie_rows Platform 2 =
     [(''Flipkart'', Some 1000), (''Amazon'', Some 1000)] \<and>
   get_cheapest_platforms in_place tie_rows \<noteq> cheapestGroups_spec tie_rows Platform 2"
  by (simp add: get_cheapest_platforms_def cheapestGroups_spec_def sort_values_def
      sort_by_rank_def in_place_def agg_mean_def groupby_price_def head_def prices_of_def
      column_def select_rows_def tie_rows_def laptop_def mean_def)

theorem get_cheapest_platforms_sorted_witness:
  "agg_mean (groupby_price Platform abc_rows) =
     [(''A'', Some 1000), (''B'', Some 800), (''C'', Some 1200)] \<and>
   get_cheapest_platforms last_first abc_rows = [(''B'', Some 800), (''A'', Some 1000)] \<and>
   length (get_cheapest_platforms last_first abc_rows) = 2 \<and>
   mean_le (''B'', Some 800) (''A'', Some 1000) \<and>
   mean_le (''A'', Some 1000) (''C'', Some 1200)"
proof -
  have means: "agg_mean (groupby_price Platform abc_rows) =
      [(''A'', Some 1000), (''B'', Some 800), (''C'', Some 1200)]"
    by (simp add: agg_mean_def groupby_price_def prices_of_def column_def select_rows_def
        abc_rows_def laptop_def mean_def)
  note inst = get_cheapest_platforms_sorted [where df = abc_rows and t = abc_rows
      and tie = last_first]
  have res: "get_cheapest_platforms last_first abc_rows = [(''B'', Some 800), (''A'', Some 1000)]"
    using inst means by blast
  have len: "length (get_cheapest_platforms last_first abc_rows) = 2"
    by (simp add: res)
  have "sorted_wrt mean_le (get_cheapest_platforms last_first abc_rows)"
    using inst by blast
  then have ba: "mean_le (''B'', Some 800) (''A'', Some 1000)"
    by (simp add: res)
  have c: "''C'' \<in> set (column Platform abc_rows)"
    by (simp add: column_def abc_rows_def laptop_def)
  have mc: "mean (prices_of Platform ''C'' abc_rows) = Some 1200"
    by (simp add: prices_of_def column_def select_rows_def abc_rows_def laptop_def mean_def)
  have "(''C'', mean (prices_of Platform ''C'' abc_rows)) \<notin>
      set (get_cheapest_platforms last_first abc_rows)"
    by (simp add: res)
  moreover have "(''A'', Some 1000) \<in> set (get_cheapest_platforms last_first abc_rows)"
    by (simp add: res)
  ultimately have "mean_le (''A'', Some 1000) (''C'', mean (prices_of Platform ''C'' abc_rows))"
    using inst c by blast
  then have ac: "mean_le (''A'', Some 1000) (''C'', Some 1200)"
    by (simp add: mc)
  show ?thesis
    using means res len ba ac by blast
qed

theorem aggregation_empty_table_witness:
  "platform_stats five_rows =
     [(''Amazon'', Some 12500, 2), (''Croma'', Some 22500, 2), (''Flipkart'', Some 30000, 1)] \<and>
   fst (snd (''Flipkart'', Some (30000::rat), 1::nat)) \<noteq> None \<and>
   0 < snd (snd (''Flipkart'', Some (30000::rat), 1::nat)) \<and>
   platform_stats [] = [] \<and> platform_counts in_place [] = [] \<and>
   get_cheapest_platforms in_place [] = []"
proof -
  have ps: "platform_stats five_rows =
      [(''Amazon'', Some 12500, 2), (''Croma'', Some 22500, 2), (''Flipkart'', Some 30000, 1)]"
    by (simp add: platform_stats_def agg_mean_count_def groupby_price_def prices_of_def
        column_def select_rows_def five_rows_def laptop_def mean_def)
  note inst = aggregation_empty_table [where df = five_rows and key = Platform
      and tie = in_place and tie' = in_place]
  have "(''Flipkart'', Some (30000::rat), 1::nat) \<in> set (platform_stats five_rows)"
    by (simp add: ps)
  with inst have "fst (snd (''Flipkart'', Some (30000::rat), 1::nat)) \<noteq> None \<and>
      0 < snd (snd (''Flipkart'', Some (30000::rat), 1::nat))"
    by blast
  with ps inst show ?thesis
    by blast
qed

section \<open>Properties of the loader\<close>

text \<open>
  C9. Column derivation is deterministic: two loads of the same file contents return the
  same result, hence the same Platform, City and Rating cells row for row, whatever the
  state of the generator before each load, in particular when the second load starts from
  the state the first one left. This is the effect of \<^verbatim>\<open>np.random.seed(42)\<close>.
\<close>

theorem load_data_deterministic:
  "fst (load_data np csv w) = fst (load_data np csv w') \<and>
   fst (load_data np csv (snd (load_data np csv w))) = fst (load_data np csv w)"
proof -
  have body: "fst (load_body np csv g) = fst (load_body np csv g')" for g g'
    by (simp add: load_body_def Let_def split: sum.splits prod.splits)
  have indep: "fst (load_data np csv v) = fst (load_data np csv v')" for v v'
    using body [of "rng_state v" "rng_state v'"]
    by (auto simp: load_data_def split: sum.splits prod.splits exn.splits)
  show ?thesis
    using indep by blast
qed

lemma load_body_rows:
  "load_body np (Inr rows) g = (Inr df, g') \<Longrightarrow>
     map fst df = [0..<length rows] \<and> map (\<lambda>ir. fst (snd ir)) df = rows"
  by (auto simp: load_body_def Let_def comp_def split: prod.splits if_splits
      intro: nth_equalityI)

text \<open>
  C10, as stated, fails: \<^verbatim>\<open>except Exception\<close> does not catch an exception that is not of
  a subclass of \<^verbatim>\<open>Exception\<close>. When \<^verbatim>\<open>KeyboardInterrupt\<close> is raised while the file is
  read, \<^verbatim>\<open>load_data\<close> propagates it instead of returning \<^verbatim>\<open>None\<close>.
\<close>

theorem keyboard_interrupt_counterexample:
  "fst (load_data counter_rng (Inl (Raised KeyboardInterrupt []) :: exn + string list)
          \<lparr>rng_state = 7, st_errors = []\<rparr>) = Inl (Raised KeyboardInterrupt []) \<and>
   fst (load_data counter_rng (Inl (Raised KeyboardInterrupt []) :: exn + string list)
          \<lparr>rng_state = 7, st_errors = []\<rparr>) \<noteq> Inr None"
  by (simp add: load_data_def load_body_def)

text \<open>
  C10, amended. \<^verbatim>\<open>load_data\<close> does not propagate an exception of the \<^verbatim>\<open>Exception\<close>
  hierarchy: when reading the file fails with an exception of a subclass of
  \<^verbatim>\<open>Exception\<close> (missing file, malformed data, any other failure of the read), it returns
  \<^verbatim>\<open>None\<close>; when reading succeeds, whatever the columns of the file, it returns
  \<^verbatim>\<open>None\<close> or the table of the file's rows with the new columns. An exception that is not
  of a subclass of \<^verbatim>\<open>Exception\<close> leaves \<^verbatim>\<open>load_data\<close> as it came.
\<close>

theorem load_data_never_raises:
  "(csv = Inl (Raised c msg) \<and> is_Exception c \<longrightarrow> fst (load_data np csv w) = Inr None) \<and>
   (csv = Inl (Raised c msg) \<and> \<not> is_Exception c \<longrightarrow>
      fst (load_data np csv w) = Inl (Raised c msg)) \<and>
   (csv = Inr rows \<longrightarrow>
      fst (load_data np csv w) = Inr None \<or>
      (\<exists>df. fst (load_data np csv w) = Inr (Some df) \<and> map fst df = [0..<length rows] \<and>
            map (\<lambda>ir. fst (snd ir)) df = rows))"
proof (intro conjI impI)
  assume "csv = Inl (Raised c msg) \<and> is_Exception c"
  then show "fst (load_data np csv w) = Inr None"
    by (simp add: load_data_def load_body_def)
next
  assume "csv = Inl (Raised c msg) \<and> \<not> is_Exception c"
  then show "fst (load_data np csv w) = Inl (Raised c msg)"
    by (simp add: load_data_def load_body_def)
next
  assume csv: "csv = Inr rows"
  obtain res g where body: "load_body np (Inr rows) (rng_state w) = (res, g)"
    by (cases "load_body np (Inr rows) (rng_state w)")
  show "fst (load_data np csv w) = Inr None \<or>
      (\<exists>df. fst (load_data np csv w) = Inr (Some df) \<and> map fst df = [0..<length rows] \<and>
            map (\<lambda>ir. fst (snd ir)) df = rows)"
  proof (cases res)
    case (Inl e)
    with body have "e = length_mismatch"
      by (auto simp: load_body_def Let_def split: prod.splits if_splits)
    with Inl body csv show ?thesis
      by (simp add: load_data_def length_mismatch_def)
  next
    case (Inr df)
    with body load_body_rows [of np rows "rng_state w" df g] csv show ?thesis
      by (simp add: load_data_def)
  qed
qed

theorem load_data_never_raises_witness:
  "is_Exception FileNotFoundError \<and> \<not> is_Exception SystemExit \<and>
   fst (load_data counter_rng (Inl (Raised SystemExit ''0'') :: exn + string list)
          \<lparr>rng_state = 7, st_errors = []\<rparr>) = Inl (Raised SystemExit ''0'') \<and>
   fst (load_data counter_rng (Inl (Raised FileNotFoundError ''No such file'') :: exn + string list)
          \<lparr>rng_state = 7, st_errors = []\<rparr>) = Inr None \<and>
   fst (load_data counter_rng (Inr [''r0'', ''r1'']) \<lparr>rng_state = 7, st_errors = []\<rparr>) \<noteq> Inr None \<and>
   (\<exists>df. fst (load_data counter_rng (Inr [''r0'', ''r1'']) \<lparr>rng_state = 7, st_errors = []\<rparr>) =
           Inr (Some df) \<and> map fst df = [0..<2] \<and> map (\<lambda>ir. fst (snd ir)) df = [''r0'', ''r1''])"
proof -
  have ex: "is_Exception FileNotFoundError"
    by simp
  have a: "fst (load_data counter_rng
      (Inl (Raised FileNotFoundError ''No such file'') :: exn + string list)
      \<lparr>rng_state = 7, st_errors = []\<rparr>) = Inr None"
    using load_data_never_raises [where csv = "Inl (Raised FileNotFoundError ''No such file'')"
        and c = FileNotFoundError and msg = "''No such file''" and np = counter_rng
        and w = "\<lparr>rng_state = 7, st_errors = []\<rparr>"] ex
    by blast
  have nex: "\<not> is_Exception SystemExit"
    by simp
  have p: "fst (load_data counter_rng (Inl (Raised SystemExit ''0'') :: exn + string list)
      \<lparr>rng_state = 7, st_errors = []\<rparr>) = Inl (Raised SystemExit ''0'')"
    using load_data_never_raises [where csv = "Inl (Raised SystemExit ''0'')"
        and c = SystemExit and msg = "''0''" and np = counter_rng
        and w = "\<lparr>rng_state = 7, st_errors = []\<rparr>"] nex
    by blast
  have b: "fst (load_data counter_rng (Inr [''r0'', ''r1'']) \<lparr>rng_state = 7, st_errors = []\<rparr>) \<noteq>
      Inr None"
    by (simp add: load_data_def load_body_def counter_rng_def Let_def)
  have "length [''r0'', ''r1''] = 2"
    by simp
  with b load_data_never_raises [where csv = "Inr [''r0'', ''r1'']" and rows = "[''r0'', ''r1'']"
      and np = counter_rng and w = "\<lparr>rng_state = 7, st_errors = []\<rparr>"]
  have "\<exists>df. fst (load_data counter_rng (Inr [''r0'', ''r1'']) \<lparr>rng_state = 7, st_errors = []\<rparr>) =
           Inr (Some df) \<and> map fst df = [0..<2] \<and> map (\<lambda>ir. fst (snd ir)) df = [''r0'', ''r1'']"
    by (metis (no_types, lifting))
  with ex nex p a b show ?thesis
    by blast
qed

theorem load_data_deterministic_witness:
  "fst (load_data counter_rng (Inr [''r0'', ''r1'', ''r2'']) \<lparr>rng_state = 7, st_errors = []\<rparr>) =
   fst (load_data counter_rng (Inr [''r0'', ''r1'', ''r2'']) \<lparr>rng_state = 1000, st_errors = [''x'']\<rparr>) \<and>
   fst (load_data counter_rng (Inr [''r0'', ''r1'', ''r2'']) \<lparr>rng_state = 7, st_errors = []\<rparr>) =
   Inr (Some [(0, ''r0'', ''Reliance Digital'', ''Kolkata'', 3),
              (1, ''r1'', ''Croma'', ''Pune'', 16 / 5),
              (2, ''r2'', ''Vijay Sales'', ''Hyderabad'', 7 / 2)])"
proof -
  have "fst (load_data counter_rng (Inr [''r0'', ''r1'', ''r2'']) \<lparr>rng_state = 7, st_errors = []\<rparr>) =
      Inr (Some [(0, ''r0'', ''Reliance Digital'', ''Kolkata'', 3),
                 (1, ''r1'', ''Croma'', ''Pune'', 16 / 5),
              (2, ''r2'', ''Vijay Sales'', ''Hyderabad'', 7 / 2)])"
    by code_simp
  with load_data_deterministic [where np = counter_rng and csv = "Inr [''r0'', ''r1'', ''r2'']"
      and w = "\<lparr>rng_state = 7, st_errors = []\<rparr>"
      and w' = "\<lparr>rng_state = 1000, st_errors = [''x'']\<rparr>"]
  show ?thesis
    by simp
qed

section \<open>No operation mutates its input\<close>

lemma unchanged_refl: "unchanged h h"
  by (simp add: unchanged_def)

lemma unchanged_length: "unchanged h0 h \<Longrightarrow> length h0 \<le> length h"
proof -
  assume "unchanged h0 h"
  then have "length (take (length h0) h) = length h0"
    by (simp only: unchanged_def)
  then show ?thesis
    by simp
qed

lemma unchanged_append: "unchanged h0 h \<Longrightarrow> unchanged h0 (h @ xs)"
  using unchanged_length [of h0 h] by (simp add: unchanged_def)

lemma unchanged_nth: "unchanged h0 h \<Longrightarrow> a < length h0 \<Longrightarrow> h ! a = h0 ! a"
proof -
  assume u: "unchanged h0 h" and a: "a < length h0"
  have "take (length h0) h ! a = h ! a"
    using a by simp
  with u show ?thesis
    by (simp only: unchanged_def)
qed

lemma frame_at_new: "frame_at (h @ [DataFrame f]) (length h) = Some f"
  by (simp add: frame_at_def)

lemma frame_at_unchanged:
  "unchanged h0 h \<Longrightarrow> frame_at h0 a = Some f \<Longrightarrow> frame_at h a = Some f"
proof -
  assume u: "unchanged h0 h" and f: "frame_at h0 a = Some f"
  from f have a: "a < length h0"
    by (simp add: frame_at_def split: if_splits)
  with u have "a < length h" "h ! a = h0 ! a"
    using unchanged_length [of h0 h] unchanged_nth [of h0 h a] by simp_all
  with f a show ?thesis
    by (simp add: frame_at_def)
qed

lemma copy_fresh:
  "frame_at h df = Some f \<Longrightarrow> \<exists>s. copy df h = Some s \<and> fresh_frame h f s"
  by (simp add: copy_def new_def fresh_frame_def frame_at_new unchanged_append unchanged_refl)

lemma getitem_fresh:
  "fresh_frame h0 f (r, h) \<Longrightarrow>
     \<exists>s. getitem keep r h = Some s \<and> fresh_frame h0 (select_rows keep f) s"
proof -
  assume inv: "fresh_frame h0 f (r, h)"
  then have u: "unchanged h0 h" and fr: "frame_at h r = Some f"
    by (simp_all add: fresh_frame_def)
  have "getitem keep r h = Some (length h, h @ [DataFrame (select_rows keep f)])"
    by (simp add: getitem_def new_def fr)
  moreover have "fresh_frame h0 (select_rows keep f)
      (length h, h @ [DataFrame (select_rows keep f)])"
    using unchanged_length [OF u] unchanged_append [OF u]
    by (simp add: fresh_frame_def frame_at_new)
  ultimately show ?thesis
    by blast
qed

lemma cond_getitem_fresh:
  "fresh_frame h0 f (r, h) \<Longrightarrow>
     \<exists>s. (if c then getitem keep r h else Some (r, h)) = Some s \<and>
         fresh_frame h0 (if c then select_rows keep f else f) s"
  using getitem_fresh [of h0 f r h keep] by simp

lemma filter_data_heap_fresh:
  assumes "frame_at h df = Some t"
  shows "\<exists>s. filter_data_heap df city brands price_range platforms ram_sizes storage_sizes h = Some s \<and>
    fresh_frame h (filter_data t city brands price_range platforms ram_sizes storage_sizes) s"
proof -
  define f1 where "f1 = (if city \<noteq> ''All'' then select_rows (\<lambda>r. City r = city) t else t)"
  define f2 where "f2 = (if brands \<noteq> [] then select_rows (\<lambda>r. Brand r \<in> set brands) f1 else f1)"
  define f3 where
    "f3 = select_rows (\<lambda>r. Price r \<ge> fst price_range \<and> Price r \<le> snd price_range) f2"
  define f4 where
    "f4 = (if platforms \<noteq> [] then select_rows (\<lambda>r. Platform r \<in> set platforms) f3 else f3)"
  define f5 where
    "f5 = (if ram_sizes \<noteq> [] then select_rows (\<lambda>r. RAM_Size r \<in> set ram_sizes) f4 else f4)"
  define f6 where
    "f6 = (if storage_sizes \<noteq> []
           then select_rows (\<lambda>r. Storage_Capacity r \<in> set storage_sizes) f5 else f5)"
  have pure: "filter_data t city brands price_range platforms ram_sizes storage_sizes = f6"
    by (simp only: filter_data_def Let_def f1_def f2_def f3_def f4_def f5_def f6_def)
  from copy_fresh [OF assms] obtain r0 h0 where
    s0: "copy df h = Some (r0, h0)" and i0: "fresh_frame h t (r0, h0)"
    by force
  from cond_getitem_fresh [OF i0, of "city \<noteq> ''All''" "\<lambda>r. City r = city"] obtain r1 h1 where
    s1: "(if city \<noteq> ''All'' then getitem (\<lambda>r. City r = city) r0 h0 else Some (r0, h0)) =
      Some (r1, h1)" and i1: "fresh_frame h f1 (r1, h1)"
    unfolding f1_def by force
  from cond_getitem_fresh [OF i1, of "brands \<noteq> []" "\<lambda>r. Brand r \<in> set brands"] obtain r2 h2 where
    s2: "(if brands \<noteq> [] then getitem (\<lambda>r. Brand r \<in> set brands) r1 h1 else Some (r1, h1)) =
      Some (r2, h2)" and i2: "fresh_frame h f2 (r2, h2)"
    unfolding f2_def by force
  from getitem_fresh [OF i2,
      of "\<lambda>r. Price r \<ge> fst price_range \<and> Price r \<le> snd price_range"] obtain r3 h3 where
    s3: "getitem (\<lambda>r. Price r \<ge> fst price_range \<and> Price r \<le> snd price_range) r2 h2 =
      Some (r3, h3)" and i3: "fresh_frame h f3 (r3, h3)"
    unfolding f3_def by force
  from cond_getitem_fresh [OF i3, of "platforms \<noteq> []" "\<lambda>r. Platform r \<in> set platforms"]
  obtain r4 h4 where
    s4: "(if platforms \<noteq> [] then getitem (\<lambda>r. Platform r \<in> set platforms) r3 h3
          else Some (r3, h3)) = Some (r4, h4)" and i4: "fresh_frame h f4 (r4, h4)"
    unfolding f4_def by force
  from cond_getitem_fresh [OF i4, of "ram_sizes \<noteq> []" "\<lambda>r. RAM_Size r \<in> set ram_sizes"]
  obtain r5 h5 where
    s5: "(if ram_sizes \<noteq> [] then getitem (\<lambda>r. RAM_Size r \<in> set ram_sizes) r4 h4
          else Some (r4, h4)) = Some (r5, h5)" and i5: "fresh_frame h f5 (r5, h5)"
    unfolding f5_def by force
  from cond_getitem_fresh [OF i5, of "storage_sizes \<noteq> []"
      "\<lambda>r. Storage_Capacity r \<in> set storage_sizes"]
  obtain r6 h6 where
    s6: "(if storage_sizes \<noteq> [] then getitem (\<lambda>r. Storage_Capacity r \<in> set storage_sizes) r5 h5
          else Some (r5, h5)) = Some (r6, h6)" and i6: "fresh_frame h f6 (r6, h6)"
    unfolding f6_def by force
  have "filter_data_heap df city brands price_range platforms ram_sizes storage_sizes h =
      Some (r6, h6)"
    unfolding filter_data_heap_def
    by (simp only: s0 s1 s2 s3 s4 s5 s6 Option.bind.simps prod.case)
  with i6 pure show ?thesis
    by simp
qed

lemma get_cheapest_platforms_heap_eq:
  "frame_at h df = Some t \<Longrightarrow>
     get_cheapest_platforms_heap tie df h =
       Some (length h + 2,
             h @ [Series (agg_mean (groupby_price Platform t)),
                  Series (sort_values tie (agg_mean (groupby_price Platform t))),
                  Series (get_cheapest_platforms tie t)])"
  by (simp add: get_cheapest_platforms_heap_def groupby_mean_heap_def sort_values_heap_def
      head_heap_def new_def series_at_def nth_append get_cheapest_platforms_def)

lemma platform_stats_heap_eq:
  "frame_at h df = Some t \<Longrightarrow>
     platform_stats_heap df h = Some (length h, h @ [Stats (platform_stats t)])"
  by (simp add: platform_stats_heap_def groupby_agg_heap_def set_columns_def new_def
      stats_at_def platform_stats_def)

lemma platform_counts_heap_eq:
  "frame_at h df = Some t \<Longrightarrow>
     platform_counts_heap tie df h = Some (length h, h @ [Counts (platform_counts tie t)])"
  by (simp add: platform_counts_heap_def new_def platform_counts_def)

text \<open>
  C8. \<^verbatim>\<open>filter_data\<close> does not mutate its input: called on a reference to a table, it
  returns; every object that existed before the call, the input table among them, has its
  value afterwards; the result is a new object, whose value is the filtered table. The
  same holds of \<^verbatim>\<open>get_cheapest_platforms\<close> and of the group statistics and counts behind
  the charts.
\<close>

theorem operations_leave_input_unchanged:
  "frame_at h df = Some t \<longrightarrow>
     (\<exists>res h'. filter_data_heap df city brands price_range platforms ram_sizes storage_sizes h =
                 Some (res, h') \<and>
               unchanged h h' \<and> frame_at h' df = Some t \<and> length h \<le> res \<and>
               frame_at h' res =
                 Some (filter_data t city brands price_range platforms ram_sizes storage_sizes)) \<and>
     (\<exists>res h'. get_cheapest_platforms_heap tie df h = Some (res, h') \<and>
               unchanged h h' \<and> frame_at h' df = Some t \<and> length h \<le> res \<and>
               series_at h' res = Some (get_cheapest_platforms tie t)) \<and>
     (\<exists>res h'. platform_stats_heap df h = Some (res, h') \<and>
               unchanged h h' \<and> frame_at h' df = Some t \<and> length h \<le> res \<and>
               stats_at h' res = Some (platform_stats t)) \<and>
     (\<exists>res h'. platform_counts_heap tie' df h = Some (res, h') \<and>
               unchanged h h' \<and> frame_at h' df = Some t \<and> length h \<le> res \<and>
               counts_at h' res = Some (platform_counts tie' t))"
proof (intro impI conjI)
  assume t: "frame_at h df = Some t"
  have keep: "unchanged h (h @ xs)" "frame_at (h @ xs) df = Some t" for xs
    using unchanged_append [OF unchanged_refl, of h xs] frame_at_unchanged [OF _ t, of "h @ xs"]
    by simp_all
  from filter_data_heap_fresh [OF t, where city = city and brands = brands
      and price_range = price_range and platforms = platforms and ram_sizes = ram_sizes
      and storage_sizes = storage_sizes]
  obtain res h' where
    run: "filter_data_heap df city brands price_range platforms ram_sizes storage_sizes h =
      Some (res, h')"
    and inv: "fresh_frame h
      (filter_data t city brands price_range platforms ram_sizes storage_sizes) (res, h')"
    by force
  from inv have "unchanged h h'" "length h \<le> res"
    "frame_at h' res =
      Some (filter_data t city brands price_range platforms ram_sizes storage_sizes)"
    by (simp_all add: fresh_frame_def)
  with run frame_at_unchanged [OF _ t, of h']
  show "\<exists>res h'. filter_data_heap df city brands price_range platforms ram_sizes storage_sizes h =
                 Some (res, h') \<and>
               unchanged h h' \<and> frame_at h' df = Some t \<and> length h \<le> res \<and>
               frame_at h' res =
                 Some (filter_data t city brands price_range platforms ram_sizes storage_sizes)"
    by blast
  show "\<exists>res h'. get_cheapest_platforms_heap tie df h = Some (res, h') \<and>
               unchanged h h' \<and> frame_at h' df = Some t \<and> length h \<le> res \<and>
               series_at h' res = Some (get_cheapest_platforms tie t)"
    using keep by (simp add: get_cheapest_platforms_heap_eq [OF t] series_at_def nth_append)
  show "\<exists>res h'. platform_stats_heap df h = Some (res, h') \<and>
               unchanged h h' \<and> frame_at h' df = Some t \<and> length h \<le> res \<and>
               stats_at h' res = Some (platform_stats t)"
    using keep by (simp add: platform_stats_heap_eq [OF t] stats_at_def)
  show "\<exists>res h'. platform_counts_heap tie' df h = Some (res, h') \<and>
               unchanged h h' \<and> frame_at h' df = Some t \<and> length h \<le> res \<and>
               counts_at h' res = Some (platform_counts tie' t)"
    using keep by (simp add: platform_counts_heap_eq [OF t] counts_at_def)
qed

theorem operations_leave_input_unchanged_witness:
  "frame_at [Counts [], DataFrame five_rows] 1 = Some five_rows \<and>
   (\<exists>res h'. filter_data_heap 1 ''All'' [''X''] (0, 50000) [] [] [] [Counts [], DataFrame five_rows] =
               Some (res, h') \<and>
             unchanged [Counts [], DataFrame five_rows] h' \<and> frame_at h' 1 = Some five_rows \<and>
             2 \<le> res \<and>
             frame_at h' res = Some (filter_data five_rows ''All'' [''X''] (0, 50000) [] [] [])) \<and>
   (\<exists>res h'. get_cheapest_platforms_heap in_place 1 [Counts [], DataFrame five_rows] =
               Some (res, h') \<and>
             unchanged [Counts [], DataFrame five_rows] h' \<and> frame_at h' 1 = Some five_rows \<and>
             2 \<le> res \<and> series_at h' res = Some (get_cheapest_platforms in_place five_rows))"
proof -
  have t: "frame_at [Counts [], DataFrame five_rows] 1 = Some five_rows"
    by (simp add: frame_at_def)
  have len: "length [Counts [], DataFrame five_rows] = 2"
    by simp
  note inst = operations_leave_input_unchanged [where h = "[Counts [], DataFrame five_rows]"
      and df = 1 and t = five_rows and city = "''All''" and brands = "[''X'']"
      and price_range = "(0, 50000)" and platforms = "[]" and ram_sizes = "[]"
      and storage_sizes = "[]" and tie = in_place, THEN mp, OF t, unfolded len]
  from t inst show ?thesis
    by blast
qed

end
